theory Spec2Isabelle
  imports Complex_Main
begin

section \<open>JavaScript values used by the species catalogue\<close>

subsection \<open>Strings\<close>

text \<open>
  A JavaScript string is modelled as a \<^typ>\<open>string\<close> whose characters are the code units
  U+0000 to U+00FF. In that range the characters removed by \<^verbatim>\<open>String.prototype.trim\<close>
  (WhiteSpace and LineTerminator of ECMAScript) are TAB, LF, VT, FF, CR, SPACE and NBSP.
\<close>

definition isWhiteSpace :: "char \<Rightarrow> bool" where
  "isWhiteSpace c = (of_char c \<in> {9, 10, 11, 12, 13, 32, 160 :: nat})"

definition trimStart :: "string \<Rightarrow> string" where
  "trimStart s = dropWhile isWhiteSpace s"

definition trim :: "string \<Rightarrow> string" where
  "trim s = rev (dropWhile isWhiteSpace (rev (dropWhile isWhiteSpace s)))"

text \<open>
  \<^verbatim>\<open>toLowerCase\<close> on U+0000 to U+00FF: the upper-case letters are A to Z and U+00C0 to
  U+00DE without the multiplication sign U+00D7; each maps to the code unit 32 above it.
\<close>

definition toLowerChar :: "char \<Rightarrow> char" where
  "toLowerChar c =
     (let n = (of_char c :: nat)
      in if (65 \<le> n \<and> n \<le> 90) \<or> (192 \<le> n \<and> n \<le> 222 \<and> n \<noteq> 215)
         then char_of (n + 32) else c)"

definition toLowerCase :: "string \<Rightarrow> string" where
  "toLowerCase s = map toLowerChar s"

subsection \<open>Numbers\<close>

text \<open>
  A JavaScript number is NaN, one of the two infinities, or a finite value; \<open>Num q\<close> is
  the number whose exact value is \<open>q\<close> (every finite binary64 value is a rational; the two
  zeros are not told apart).
\<close>

datatype jsnum = NaN | PosInfinity | NegInfinity | Num rat

fun js_lt :: "jsnum \<Rightarrow> jsnum \<Rightarrow> bool" where
  "js_lt NaN _ = False"
| "js_lt _ NaN = False"
| "js_lt _ NegInfinity = False"
| "js_lt NegInfinity _ = True"
| "js_lt PosInfinity _ = False"
| "js_lt (Num a) PosInfinity = True"
| "js_lt (Num a) (Num b) = (a < b)"

definition js_le :: "jsnum \<Rightarrow> jsnum \<Rightarrow> bool" where
  "js_le a b = (a \<noteq> NaN \<and> b \<noteq> NaN \<and> (a = b \<or> js_lt a b))"

fun isInteger :: "jsnum \<Rightarrow> bool" where
  "isInteger (Num q) = (q = of_int \<lfloor>q\<rfloor>)"
| "isInteger _ = False"

fun isFinite :: "jsnum \<Rightarrow> bool" where
  "isFinite (Num q) = True"
| "isFinite _ = False"

section \<open>The species edit form: \<^verbatim>\<open>speciesSchema\<close>\<close>

datatype kingdom = Animalia | Plantae | Fungi | Protista | Archaea | Bacteria

text \<open>
  \<^verbatim>\<open>FormData\<close>, the type of the form's values (\<^verbatim>\<open>useForm<FormData>\<close>): a nullable
  field is an \<^typ>\<open>'a option\<close>, \<open>None\<close> for \<^verbatim>\<open>null\<close>. The field \<^verbatim>\<open>image\<close> is named
  \<open>image_url\<close> here.
\<close>

record FormData =
  scientific_name :: string
  common_name :: "string option"
  kingdom :: kingdom
  total_population :: "jsnum option"
  image_url :: "string option"
  description :: "string option"

text \<open>The issues a zod check reports, by the check that raised them.\<close>

datatype issue = TooSmall | NotInteger | InvalidType | InvalidUrl

text \<open>
  \<^verbatim>\<open>z.string().trim().min(1).transform((val) => val?.trim())\<close>: the checks run on the
  trimmed string, the transform trims once more.
\<close>

definition scientific_name_schema :: "string \<Rightarrow> issue list + string" where
  "scientific_name_schema val =
     (let data = trim val
      in if length data < 1 then Inl [TooSmall] else Inr (trim data))"

text \<open>
  The transform shared by the three optional text fields:
  \<^verbatim>\<open>(val) => (!val || val.trim() === "" ? null : val.trim())\<close>.
  \<^verbatim>\<open>!val\<close> holds of \<^verbatim>\<open>null\<close> and of the empty string.
\<close>

definition blank_to_null :: "string option \<Rightarrow> string option" where
  "blank_to_null val =
     (case val of
        None \<Rightarrow> None
      | Some s \<Rightarrow> if s = [] \<or> trim s = [] then None else Some (trim s))"

text \<open>\<^verbatim>\<open>z.string().nullable().transform(...)\<close>, for \<^verbatim>\<open>common_name\<close> and \<^verbatim>\<open>description\<close>.\<close>

definition nullable_text_schema :: "string option \<Rightarrow> issue list + string option" where
  "nullable_text_schema val = Inr (blank_to_null val)"

text \<open>
  Modelled from the URL standard: zod's \<^verbatim>\<open>url()\<close> check accepts a string exactly when
  \<^verbatim>\<open>new URL(s)\<close> does not throw, and that constructor belongs to the JavaScript
  runtime. Without a base URL the parser strips leading and trailing C0 controls and
  spaces, removes every tab and newline, and then needs a scheme: an ASCII letter, then
  letters, digits, \<^verbatim>\<open>+\<close>, \<^verbatim>\<open>-\<close> or \<^verbatim>\<open>.\<close>, then a colon; otherwise it fails. What it
  requires of the text after the colon (authority, host, port, path) is the parameter
  \<open>rest\<close>, applied to the scheme and to that text.
\<close>

definition isC0OrSpace :: "char \<Rightarrow> bool" where
  "isC0OrSpace c = ((of_char c :: nat) \<le> 32)"

definition isTabOrNewline :: "char \<Rightarrow> bool" where
  "isTabOrNewline c = (of_char c \<in> {9, 10, 13 :: nat})"

definition isAsciiAlpha :: "char \<Rightarrow> bool" where
  "isAsciiAlpha c =
     (let n = (of_char c :: nat) in (65 \<le> n \<and> n \<le> 90) \<or> (97 \<le> n \<and> n \<le> 122))"

definition isAsciiDigit :: "char \<Rightarrow> bool" where
  "isAsciiDigit c = (let n = (of_char c :: nat) in 48 \<le> n \<and> n \<le> 57)"

definition isSchemeChar :: "char \<Rightarrow> bool" where
  "isSchemeChar c =
     (isAsciiAlpha c \<or> isAsciiDigit c \<or> c = CHR ''+'' \<or> c = CHR ''-'' \<or> c = CHR ''.'')"

definition new_URL_ok :: "(string \<Rightarrow> string \<Rightarrow> bool) \<Rightarrow> string \<Rightarrow> bool" where
  "new_URL_ok rest input =
     (let stripped = rev (dropWhile isC0OrSpace (rev (dropWhile isC0OrSpace input)));
          s = filter (\<lambda>c. \<not> isTabOrNewline c) stripped
      in case s of
           [] \<Rightarrow> False
         | c # cs \<Rightarrow>
             isAsciiAlpha c \<and>
             (case dropWhile isSchemeChar cs of
                [] \<Rightarrow> False
              | d # ds \<Rightarrow> d = CHR '':'' \<and> rest (c # takeWhile isSchemeChar cs) ds))"

text \<open>
  \<^verbatim>\<open>z.string().url().nullable().transform(...)\<close>: \<^verbatim>\<open>null\<close> passes the nullable wrapper,
  a string has to pass the \<^verbatim>\<open>url()\<close> check before the transform is applied.
\<close>

definition image_schema ::
  "(string \<Rightarrow> string \<Rightarrow> bool) \<Rightarrow> string option \<Rightarrow> issue list + string option" where
  "image_schema rest val =
     (case val of
        None \<Rightarrow> Inr (blank_to_null None)
      | Some s \<Rightarrow> if new_URL_ok rest s then Inr (blank_to_null (Some s)) else Inl [InvalidUrl])"

text \<open>
  \<^verbatim>\<open>z.number().int().positive().min(1).nullable()\<close>: \<^verbatim>\<open>null\<close> passes; NaN is not a
  number for zod; on a number the three checks all run and each adds its issue:
  \<^verbatim>\<open>int\<close> (\<^verbatim>\<open>Number.isInteger\<close>), \<^verbatim>\<open>positive\<close> (too small when \<^verbatim>\<open>data <= 0\<close>) and
  \<^verbatim>\<open>min(1)\<close> (too small when \<^verbatim>\<open>data < 1\<close>).
\<close>

definition total_population_schema :: "jsnum option \<Rightarrow> issue list + jsnum option" where
  "total_population_schema val =
     (case val of
        None \<Rightarrow> Inr None
      | Some n \<Rightarrow>
          if n = NaN then Inl [InvalidType]
          else
            (let issues =
                   (if \<not> isInteger n then [NotInteger] else []) @
                   (if js_le n (Num 0) then [TooSmall] else []) @
                   (if js_lt n (Num 1) then [TooSmall] else [])
             in if issues = [] then Inr (Some n) else Inl issues))"

text \<open>The issues of one field, under the field's name.\<close>

definition at_path :: "string \<Rightarrow> issue list + 'a \<Rightarrow> (string \<times> issue) list" where
  "at_path p r = (case r of Inl is \<Rightarrow> map (Pair p) is | Inr _ \<Rightarrow> [])"

text \<open>
  \<^verbatim>\<open>speciesSchema\<close>: the object schema parses every field, in the order of its keys, and
  succeeds with the transformed values when no field raised an issue. The kingdom of a
  \<^verbatim>\<open>FormData\<close> is one of the six members of the enumeration, which is all its check asks.
\<close>

definition speciesSchema ::
  "(string \<Rightarrow> string \<Rightarrow> bool) \<Rightarrow> FormData \<Rightarrow> (string \<times> issue) list + FormData" where
  "speciesSchema rest input =
     (let r_sci = scientific_name_schema (scientific_name input);
          r_com = nullable_text_schema (common_name input);
          r_pop = total_population_schema (total_population input);
          r_img = image_schema rest (image_url input);
          r_des = nullable_text_schema (description input)
      in case (r_sci, r_com, r_pop, r_img, r_des) of
           (Inr sci, Inr com, Inr pop, Inr img, Inr des) \<Rightarrow>
             Inr \<lparr> scientific_name = sci, common_name = com, kingdom = kingdom input,
                   total_population = pop, image_url = img, description = des \<rparr>
         | _ \<Rightarrow>
             Inl (at_path ''scientific_name'' r_sci @ at_path ''common_name'' r_com @
                  at_path ''total_population'' r_pop @ at_path ''image'' r_img @
                  at_path ''description'' r_des))"

section \<open>The species edit dialog: \<^verbatim>\<open>EditSpeciesDialog\<close>\<close>

text \<open>
  A row of the \<^verbatim>\<open>species\<close> table: the six form fields, the numeric \<^verbatim>\<open>id\<close> (named
  \<open>species_id\<close> here) and the \<^verbatim>\<open>author\<close>. The row type is declared outside these
  sources; the author check of \<^verbatim>\<open>onSubmit\<close> treats a \<^verbatim>\<open>null\<close> author and an empty one
  alike, so the model admits both.
\<close>

record Species = FormData +
  species_id :: int
  author :: "string option"

datatype variant = Default | Destructive

text \<open>A notification: title, description and variant of a \<^verbatim>\<open>toast\<close> call.\<close>

datatype toast = Toast string string variant

text \<open>
  \<^verbatim>\<open>supabase.from(table).update(payload).eq(column, value)\<close>: the one request the dialog
  sends.
\<close>

record update_request =
  table :: string
  payload :: FormData
  eq_column :: string
  eq_value :: int

text \<open>
  What the handler reads and writes: the \<^verbatim>\<open>open\<close> state of the dialog, the values and
  the errors of the form, the notifications shown, the number of \<^verbatim>\<open>router.refresh()\<close>
  calls and the requests sent to the backend, the oldest first.
\<close>

record dialog_state =
  is_open :: bool
  form_values :: FormData
  field_errors :: "(string \<times> issue) list"
  toasts :: "toast list"
  refreshes :: nat
  requests :: "update_request list"

definition defaultValues :: FormData where
  "defaultValues =
     \<lparr> scientific_name = '''', common_name = None, kingdom = Animalia,
       total_population = None, image_url = None, description = None \<rparr>"

text \<open>\<^verbatim>\<open>species.author\<close> as a condition: false of \<^verbatim>\<open>null\<close> and of the empty string.\<close>

definition truthy :: "string option \<Rightarrow> bool" where
  "truthy v = (case v of None \<Rightarrow> False | Some s \<Rightarrow> s \<noteq> [])"

text \<open>
  \<^verbatim>\<open>onSubmit\<close>. The backend is a function from the request to the \<^verbatim>\<open>message\<close> of the
  error it answers with, \<open>None\<close> when the \<^verbatim>\<open>error\<close> of the response is \<^verbatim>\<open>null\<close>.
\<close>

definition onSubmit ::
  "(update_request \<Rightarrow> string option) \<Rightarrow> string \<Rightarrow> ('a Species_scheme) \<Rightarrow> FormData \<Rightarrow>
   dialog_state \<Rightarrow> dialog_state" where
  "onSubmit backend userId species input st =
     (if truthy (author species) \<and> author species \<noteq> Some userId
      then st\<lparr>toasts := toasts st @
             [Toast ''Something went wrong'' ''You can only edit species you created.''
                Destructive]\<rparr>
      else
        (let request =
               \<lparr> table = ''species'',
                 payload =
                   \<lparr> scientific_name = scientific_name input,
                     common_name = common_name input,
                     kingdom = kingdom input,
                     total_population = total_population input,
                     image_url = image_url input,
                     description = description input \<rparr>,
                 eq_column = ''id'',
                 eq_value = species_id species \<rparr>;
             sent = st\<lparr>requests := requests st @ [request]\<rparr>
         in case backend request of
              Some message \<Rightarrow>
                sent\<lparr>toasts := toasts sent @
                       [Toast ''Something went wrong.'' message Destructive]\<rparr>
            | None \<Rightarrow>
                sent\<lparr>form_values := defaultValues,
                     is_open := False,
                     refreshes := Suc (refreshes sent),
                     toasts := toasts sent @
                       [Toast ''Species edited!''
                          (''Successfully edited '' @ scientific_name input @ ''.'')
                          Default]\<rparr>))"

text \<open>
  \<^verbatim>\<open>form.handleSubmit(onSubmit)\<close> with the zod resolver: the form's values go through
  \<^verbatim>\<open>speciesSchema\<close>; issues become the form's errors and the handler is not called,
  otherwise the handler receives the transformed values.
\<close>

definition handleSubmit ::
  "(string \<Rightarrow> string \<Rightarrow> bool) \<Rightarrow> (update_request \<Rightarrow> string option) \<Rightarrow> string \<Rightarrow>
   ('a Species_scheme) \<Rightarrow> dialog_state \<Rightarrow> dialog_state" where
  "handleSubmit rest backend userId species st =
     (case speciesSchema rest (form_values st) of
        Inl issues \<Rightarrow> st\<lparr>field_errors := issues\<rparr>
      | Inr input \<Rightarrow> onSubmit backend userId species input (st\<lparr>field_errors := []\<rparr>))"

text \<open>
  The tree of elements a component returns: text, or a named element with its children.
  Attributes (class names, placeholders, handlers) are left out.
\<close>

datatype element = Text string | Element string "element list"

fun mentions :: "string \<Rightarrow> element \<Rightarrow> bool" where
  "mentions tag (Text _) = False"
| "mentions tag (Element t children) = (t = tag \<or> list_ex (mentions tag) children)"

definition FormField :: "string \<Rightarrow> string \<Rightarrow> string \<Rightarrow> element" where
  "FormField field_name label control =
     Element ''FormField''
       [Text field_name,
        Element ''FormItem''
          [Element ''FormLabel'' [Text label],
           Element ''FormControl'' [Element control []],
           Element ''FormMessage'' []]]"

text \<open>
  What \<^verbatim>\<open>EditSpeciesDialog\<close> returns: a \<^verbatim>\<open>div\<close> holding two spaces and, between them,
  the dialog when \<^verbatim>\<open>species.id > 16\<close>.
\<close>

definition EditSpeciesDialog :: "('a Species_scheme) \<Rightarrow> element" where
  "EditSpeciesDialog species =
     Element ''div''
       ([Text '' ''] @
        (if species_id species > 16
         then
           [Element ''Dialog''
              [Element ''DialogTrigger''
                 [Element ''Button'' [Element ''Icons.add'' [], Text ''Edit Species'']],
               Element ''DialogContent''
                 [Element ''DialogHeader''
                    [Element ''DialogTitle'' [Text ''Edit Species''],
                     Element ''DialogDescription''
                       [Text ''Edit an existing species here. Click &quot;Edit Species&quot; below when you&apos;re done.'']],
                  Element ''Form''
                    [Element ''form''
                       [Element ''div''
                          [FormField ''scientific_name'' ''Scientific Name'' ''Input'',
                           FormField ''common_name'' ''Common Name'' ''Input'',
                           FormField ''kingdom'' ''Kingdom'' ''Select'',
                           FormField ''total_population'' ''Total population'' ''Input'',
                           FormField ''image'' ''Image URL'' ''Input'',
                           FormField ''description'' ''Description'' ''Textarea'',
                           Element ''div''
                             [Element ''Button'' [Text ''Edit Species''],
                              Element ''DialogClose''
                                [Element ''Button'' [Text ''Cancel'']]]]]]]]]
         else []) @
        [Text '' ''])"

text \<open>
  A submit event: \<^verbatim>\<open>handleSubmit\<close> is the \<^verbatim>\<open>onSubmit\<close> of the \<^verbatim>\<open>form\<close> element and has
  no other caller, so the event exists only when the component returned that element.
\<close>

definition submit_event ::
  "(string \<Rightarrow> string \<Rightarrow> bool) \<Rightarrow> (update_request \<Rightarrow> string option) \<Rightarrow> string \<Rightarrow>
   ('a Species_scheme) \<Rightarrow> dialog_state \<Rightarrow> dialog_state" where
  "submit_event rest backend userId species st =
     (if mentions ''form'' (EditSpeciesDialog species)
      then handleSubmit rest backend userId species st
      else st)"

section \<open>The speed chart: \<^verbatim>\<open>AnimalSpeedGraph\<close>\<close>

subsection \<open>\<^verbatim>\<open>Number.parseFloat\<close>\<close>

text \<open>
  \<^verbatim>\<open>parseFloat\<close> skips leading white space and reads the longest prefix that is a
  decimal literal: an optional sign, then \<^verbatim>\<open>Infinity\<close>, or digits with an optional
  fraction and exponent, or a fraction that starts with the dot. With no such prefix the
  result is NaN. The literal's value becomes an infinity from \<open>2^1024 - 2^970\<close> on, the
  point from which binary64 rounds to infinity; below it the model keeps the literal's
  exact value, where JavaScript has the binary64 number nearest to it.
\<close>

definition digitValue :: "char \<Rightarrow> nat" where
  "digitValue c = of_char c - 48"

definition decimalValue :: "string \<Rightarrow> nat" where
  "decimalValue ds = foldl (\<lambda>acc c. 10 * acc + digitValue c) 0 ds"

definition pow10 :: "int \<Rightarrow> rat" where
  "pow10 e = (if 0 \<le> e then 10 ^ nat e else 1 / 10 ^ nat (- e))"

text \<open>
  The value of the exponent part that starts the text, \<open>0\<close> when none does: \<^verbatim>\<open>e\<close> or
  \<^verbatim>\<open>E\<close>, an optional sign, at least one digit.
\<close>

definition exponentPart :: "string \<Rightarrow> int" where
  "exponentPart s =
     (case s of
        [] \<Rightarrow> 0
      | c # r \<Rightarrow>
          if c = CHR ''e'' \<or> c = CHR ''E'' then
            (case r of
               [] \<Rightarrow> 0
             | d # r' \<Rightarrow>
                 if d = CHR ''-'' then - int (decimalValue (takeWhile isAsciiDigit r'))
                 else if d = CHR ''+'' then int (decimalValue (takeWhile isAsciiDigit r'))
                 else int (decimalValue (takeWhile isAsciiDigit r)))
          else 0)"

definition toNumber :: "bool \<Rightarrow> rat \<Rightarrow> jsnum" where
  "toNumber negative q =
     (if 2 ^ 1024 - 2 ^ 970 \<le> q then (if negative then NegInfinity else PosInfinity)
      else Num (if negative then - q else q))"

text \<open>The sign that starts the text, if one does, and the text after it.\<close>

definition signPart :: "string \<Rightarrow> bool \<times> string" where
  "signPart t =
     (case t of
        [] \<Rightarrow> (False, [])
      | c # r \<Rightarrow>
          if c = CHR ''-'' then (True, r) else if c = CHR ''+'' then (False, r) else (False, t))"

text \<open>
  The digits of the fraction that starts the text, and the text after them; a text that
  does not start with a dot has no fraction.
\<close>

definition fractionPart :: "string \<Rightarrow> string \<times> string" where
  "fractionPart r =
     (case r of
        [] \<Rightarrow> ([], [])
      | c # r' \<Rightarrow>
          if c = CHR ''.'' then (takeWhile isAsciiDigit r', dropWhile isAsciiDigit r')
          else ([], r))"

definition parseFloat :: "string \<Rightarrow> jsnum" where
  "parseFloat s =
     (case signPart (trimStart s) of
        (negative, u) \<Rightarrow>
          if take 8 u = ''Infinity'' then (if negative then NegInfinity else PosInfinity)
          else
            (let int_digits = takeWhile isAsciiDigit u
             in case fractionPart (dropWhile isAsciiDigit u) of
                  (frac_digits, r2) \<Rightarrow>
                    if int_digits = [] \<and> frac_digits = [] then NaN
                    else toNumber negative
                           (of_nat (decimalValue (int_digits @ frac_digits)) *
                            pow10 (exponentPart r2 - int (length frac_digits)))))"

subsection \<open>The parse effect\<close>

text \<open>
  A row of \<^verbatim>\<open>d3.csv\<close> is a \<^verbatim>\<open>Record<string, string>\<close>; \<^verbatim>\<open>String(r[key])\<close> is the text
  \<^verbatim>\<open>undefined\<close> when the row has no such column.
\<close>

type_synonym csv_row = "string \<rightharpoonup> string"

definition String_of :: "string option \<Rightarrow> string" where
  "String_of v = (case v of None \<Rightarrow> ''undefined'' | Some s \<Rightarrow> s)"

text \<open>
  \<^verbatim>\<open>AnimalDatum\<close>. The \<^verbatim>\<open>diet\<close> is cast to the three-valued type without a check, so it
  is whatever text the row holds.
\<close>

record AnimalDatum =
  name :: string
  speed :: jsnum
  diet :: string

definition parse_row :: "csv_row \<Rightarrow> AnimalDatum" where
  "parse_row r =
     \<lparr> name = trim (String_of (r ''Animal'')),
       speed = parseFloat (String_of (r ''Average Speed (km/h)'')),
       diet = toLowerCase (trim (String_of (r ''Diet''))) \<rparr>"

text \<open>\<^verbatim>\<open>(d) => d.name && Number.isFinite(d.speed)\<close>: a name is true when it is not empty.\<close>

definition keep_datum :: "AnimalDatum \<Rightarrow> bool" where
  "keep_datum d = (name d \<noteq> [] \<and> isFinite (speed d))"

definition parse_rows :: "csv_row list \<Rightarrow> AnimalDatum list" where
  "parse_rows rows = filter keep_datum (map parse_row rows)"

subsection \<open>The render effect\<close>

text \<open>
  \<^verbatim>\<open>d3.max(values, accessor)\<close>: \<^verbatim>\<open>undefined\<close> (\<open>None\<close>) until a value that equals itself is
  met, then the largest such value; NaN is passed over.
\<close>

definition d3_max_step :: "jsnum option \<Rightarrow> jsnum \<Rightarrow> jsnum option" where
  "d3_max_step m v =
     (case m of
        None \<Rightarrow> if js_le v v then Some v else None
      | Some m' \<Rightarrow> if js_lt m' v then Some v else Some m')"

definition d3_max :: "jsnum list \<Rightarrow> jsnum option" where
  "d3_max values = foldl d3_max_step None values"

text \<open>
  The calls the render effect makes on the container and on the chart library, in the
  order of the source, each with the data it is given.
\<close>

datatype draw_call =
    ClearContainer
  | AppendSvg nat nat
  | AppendGroup nat nat
  | ScaleBand "string list" nat nat
  | D3Max "jsnum list"
  | ScaleLinear "jsnum option" nat nat
  | ScaleOrdinal "string list" "string list"
  | Bars "AnimalDatum list"
  | AxisBottom
  | AxisLeft
  | LegendGroup nat nat
  | LegendItems "string list"

text \<open>
  The second effect of the component, run with the container \<open>el\<close> (\<open>None\<close> when the ref is
  not attached) and the parsed data: \<^verbatim>\<open>if (!el || data.length === 0) return;\<close> comes
  first.
\<close>

definition render_effect :: "'e option \<Rightarrow> AnimalDatum list \<Rightarrow> draw_call list" where
  "render_effect el data =
     (if el = None \<or> length data = 0 then []
      else
        (let width = 960; height = 500;
             top = 20; right = 120; bottom = 100; left = 60;
             innerW = width - left - right;
             innerH = height - top - bottom;
             speeds = map speed data
         in [ClearContainer,
             AppendSvg width height,
             AppendGroup left top,
             ScaleBand (map name data) 0 innerW,
             D3Max speeds,
             ScaleLinear (d3_max speeds) innerH 0,
             ScaleOrdinal [''herbivore'', ''omnivore'', ''carnivore'']
               [''#66c2a5'', ''#fc8d62'', ''#8da0cb''],
             Bars data,
             AxisBottom,
             AxisLeft,
             LegendGroup (width - right + 20) top,
             LegendItems [''herbivore'', ''omnivore'', ''carnivore'']]))"

text \<open>
  One mount of the component on the rows the CSV request answers with: the render effect
  runs on the initial, empty data and again when the parse effect has set the data. The
  component itself returns an empty \<^verbatim>\<open>div\<close>.
\<close>

definition AnimalSpeedGraph :: element where
  "AnimalSpeedGraph = Element ''div'' []"

definition mount_calls :: "'e option \<Rightarrow> csv_row list \<Rightarrow> draw_call list" where
  "mount_calls el rows = render_effect el [] @ render_effect el (parse_rows rows)"

section \<open>The page: \<^verbatim>\<open>SpeciesSpeedPage\<close>\<close>

text \<open>
  The page reads the session and, without one, calls \<^verbatim>\<open>redirect("/")\<close>, which does not
  return; otherwise it returns its elements, the chart component the last of them. The
  text of the introductory paragraph is left out.
\<close>

datatype page_result = Redirect string | Rendered element

definition SpeciesSpeedPage :: "'s option \<Rightarrow> page_result" where
  "SpeciesSpeedPage session =
     (case session of
        None \<Rightarrow> Redirect ''/''
      | Some _ \<Rightarrow>
          Rendered
            (Element ''Fragment''
               [Element ''div'' [Element ''TypographyH2'' [Text ''Species Speed'']],
                Element ''Separator'' [],
                Element ''section''
                  [Element ''h1'' [Text ''How Fast Are Animals?''], Element ''p'' []],
                Element ''AnimalSpeedGraph'' []]))"

text \<open>
  What one request to the page does, in order: the session lookup, then the redirect or
  the rendering; a rendered chart component fetches the CSV when it mounts.
\<close>

datatype page_event = GetSession | RedirectTo string | RenderPage | FetchCsv string

definition request_events :: "'s option \<Rightarrow> page_event list" where
  "request_events session =
     GetSession #
     (case SpeciesSpeedPage session of
        Redirect url \<Rightarrow> [RedirectTo url]
      | Rendered page \<Rightarrow>
          RenderPage #
          (if mentions ''AnimalSpeedGraph'' page then [FetchCsv ''/sample_animals.csv''] else []))"

section \<open>Sample inputs\<close>

text \<open>Concrete values at which the results below are instantiated.\<close>

definition any_rest :: "string \<Rightarrow> string \<Rightarrow> bool" where
  "any_rest scheme text = True"

definition accepting_backend :: "update_request \<Rightarrow> string option" where
  "accepting_backend request = None"

definition failing_backend :: "update_request \<Rightarrow> string option" where
  "failing_backend request = Some ''permission denied''"

definition lion_form :: FormData where
  "lion_form =
     \<lparr> scientific_name = '' Panthera leo '', common_name = Some ''Lion'', kingdom = Animalia,
       total_population = Some (Num 20000), image_url = None, description = Some ''  '' \<rparr>"

definition lion_input :: FormData where
  "lion_input =
     \<lparr> scientific_name = ''Panthera leo'', common_name = Some ''Lion'', kingdom = Animalia,
       total_population = Some (Num 20000), image_url = None, description = None \<rparr>"

definition lion :: Species where
  "lion =
     \<lparr> scientific_name = ''Panthera leo'', common_name = Some ''Lion'', kingdom = Animalia,
       total_population = Some (Num 20000), image_url = None, description = None,
       species_id = 17, author = Some ''user-1'' \<rparr>"

definition orphan_lion :: Species where
  "orphan_lion = lion\<lparr>author := Some ''''\<rparr>"

definition seeded_lion :: Species where
  "seeded_lion = lion\<lparr>species_id := 16\<rparr>"

definition open_dialog :: dialog_state where
  "open_dialog =
     \<lparr> is_open = True, form_values = lion_form, field_errors = [], toasts = [],
       refreshes = 0, requests = [] \<rparr>"

definition nameless_row :: csv_row where
  "nameless_row =
     [''Animal'' \<mapsto> '''', ''Average Speed (km/h)'' \<mapsto> ''40'', ''Diet'' \<mapsto> ''Herbivore'']"

definition cheetah :: AnimalDatum where
  "cheetah = \<lparr> name = ''Cheetah'', speed = Num 120, diet = ''carnivore'' \<rparr>"

section \<open>Results\<close>

subsection \<open>Trimming\<close>

lemma dropWhile_rev_dropWhile:
  "dropWhile P (rev (dropWhile P (rev (dropWhile P s)))) = rev (dropWhile P (rev (dropWhile P s)))"
proof (cases "rev (dropWhile P (rev (dropWhile P s))) = []")
  case True
  show ?thesis unfolding True by simp
next
  case False
  let ?u = "dropWhile P s"
  have "?u = rev (dropWhile P (rev ?u)) @ rev (takeWhile P (rev ?u))"
    by (metis rev_append rev_rev_ident takeWhile_dropWhile_id)
  then have "hd ?u = hd (rev (dropWhile P (rev ?u)))"
    using False by (metis hd_append2)
  moreover have "?u \<noteq> []" using False by (metis dropWhile.simps(1) rev.simps(1))
  then have "\<not> P (hd ?u)" by (rule hd_dropWhile)
  ultimately show ?thesis using False
    by (simp add: dropWhile_eq_self_iff)
qed

lemma trim_idem: "trim (trim s) = trim s"
  unfolding trim_def by (simp add: dropWhile_rev_dropWhile)

lemma all_dropWhile_iff: "(\<forall>x \<in> set (dropWhile P s). P x) \<longleftrightarrow> (\<forall>x \<in> set s. P x)"
  by (metis dropWhile_eq_Nil_conv dropWhile_idem)

lemma trim_Nil_iff: "trim s = [] \<longleftrightarrow> (\<forall>c \<in> set s. isWhiteSpace c)"
  unfolding trim_def by (simp add: all_dropWhile_iff)

subsection \<open>Validation of the edit form\<close>

lemma scientific_name_schema_cases:
  "scientific_name_schema s = (if trim s = [] then Inl [TooSmall] else Inr (trim s))"
  by (simp add: scientific_name_schema_def Let_def trim_idem)

lemma blank_to_null_cases:
  "blank_to_null v = (case v of None \<Rightarrow> None | Some s \<Rightarrow> if trim s = [] then None else Some (trim s))"
  by (auto simp: blank_to_null_def trim_def split: option.splits)

lemma speciesSchema_Inl_sci:
  "trim (scientific_name input) = [] \<Longrightarrow>
   \<exists>issues. speciesSchema rest input = Inl issues \<and> (''scientific_name'', TooSmall) \<in> set issues"
  by (simp add: speciesSchema_def Let_def scientific_name_schema_cases at_path_def)

lemma handleSubmit_invalid:
  "speciesSchema rest (form_values st) = Inl issues \<Longrightarrow>
   handleSubmit rest backend userId species st = st\<lparr>field_errors := issues\<rparr>"
  by (simp add: handleSubmit_def)

text \<open>
  Claim C3. When the scientific name of the submitted form is empty after trimming (it is
  empty or holds white space only), its field schema reports \<open>TooSmall\<close>, the object
  schema fails with that issue under \<^verbatim>\<open>scientific_name\<close>, and \<open>handleSubmit\<close> only
  records the issues: \<open>onSubmit\<close> is not called and the list of requests sent to the
  backend is unchanged. A scientific name that is not empty after trimming passes its
  field schema, with the trimmed name as the value.
\<close>

theorem empty_scientific_name_rejected:
  "(trim (scientific_name (form_values st)) = [] \<longrightarrow>
      scientific_name_schema (scientific_name (form_values st)) = Inl [TooSmall] \<and>
      (\<exists>issues. speciesSchema rest (form_values st) = Inl issues \<and>
         (''scientific_name'', TooSmall) \<in> set issues \<and>
         handleSubmit rest backend userId species st = st\<lparr>field_errors := issues\<rparr>) \<and>
      requests (handleSubmit rest backend userId species st) = requests st) \<and>
   (trim s \<noteq> [] \<longrightarrow> scientific_name_schema s = Inr (trim s))"
proof (intro conjI impI)
  assume blank: "trim (scientific_name (form_values st)) = []"
  then show "scientific_name_schema (scientific_name (form_values st)) = Inl [TooSmall]"
    by (simp add: scientific_name_schema_cases)
  from speciesSchema_Inl_sci [OF blank, of rest] obtain issues where
    issues: "speciesSchema rest (form_values st) = Inl issues"
      "(''scientific_name'', TooSmall) \<in> set issues"
    by blast
  have step: "handleSubmit rest backend userId species st = st\<lparr>field_errors := issues\<rparr>"
    using issues(1) by (rule handleSubmit_invalid)
  with issues show "\<exists>issues. speciesSchema rest (form_values st) = Inl issues \<and>
         (''scientific_name'', TooSmall) \<in> set issues \<and>
         handleSubmit rest backend userId species st = st\<lparr>field_errors := issues\<rparr>"
    by blast
  show "requests (handleSubmit rest backend userId species st) = requests st"
    by (simp add: step)
next
  assume "trim s \<noteq> []"
  then show "scientific_name_schema s = Inr (trim s)"
    by (simp add: scientific_name_schema_cases)
qed

text \<open>The form with three spaces as its scientific name, and the name of the lion.\<close>

theorem empty_scientific_name_rejected_witness:
  "trim (scientific_name (form_values (open_dialog\<lparr>form_values := lion_form\<lparr>scientific_name := ''   ''\<rparr>\<rparr>))) = [] \<and>
   scientific_name_schema ''   '' = Inl [TooSmall] \<and>
   requests (handleSubmit any_rest accepting_backend ''user-1'' lion
      (open_dialog\<lparr>form_values := lion_form\<lparr>scientific_name := ''   ''\<rparr>\<rparr>)) = [] \<and>
   trim '' Panthera leo '' \<noteq> [] \<and>
   scientific_name_schema '' Panthera leo '' = Inr ''Panthera leo''"
  using empty_scientific_name_rejected
    [of "open_dialog\<lparr>form_values := lion_form\<lparr>scientific_name := ''   ''\<rparr>\<rparr>"
        any_rest accepting_backend "''user-1''" lion "'' Panthera leo ''"]
  by (simp add: open_dialog_def lion_form_def trim_def isWhiteSpace_def)

lemma total_population_schema_cases:
  "(q \<le> 0 \<longrightarrow>
      (\<exists>issues. total_population_schema (Some (Num q)) = Inl issues \<and> TooSmall \<in> set issues)) \<and>
   total_population_schema (Some (Num 1)) = Inr (Some (Num 1)) \<and>
   total_population_schema None = Inr None \<and>
   ((\<exists>v. total_population_schema (Some n) = Inr v) \<longleftrightarrow>
      (\<exists>k::int. 0 < k \<and> n = Num (of_int k))) \<and>
   (total_population_schema (Some n) = Inr v \<longrightarrow> v = Some n)"
proof (intro conjI impI)
  assume "q \<le> 0"
  then show "\<exists>issues. total_population_schema (Some (Num q)) = Inl issues \<and> TooSmall \<in> set issues"
    by (simp add: total_population_schema_def js_le_def Let_def)
next
  show "total_population_schema (Some (Num 1)) = Inr (Some (Num 1))"
    by (simp add: total_population_schema_def js_le_def Let_def)
next
  show "total_population_schema None = Inr None"
    by (simp add: total_population_schema_def)
next
  show "(\<exists>v. total_population_schema (Some n) = Inr v) \<longleftrightarrow>
      (\<exists>k::int. 0 < k \<and> n = Num (of_int k))"
  proof (cases n)
    case (Num q)
    have "(q = of_int \<lfloor>q\<rfloor> \<and> 0 < q \<and> 1 \<le> q) \<longleftrightarrow> (\<exists>k::int. 0 < k \<and> q = of_int k)"
    proof
      assume a: "q = of_int \<lfloor>q\<rfloor> \<and> 0 < q \<and> 1 \<le> q"
      then have "0 < \<lfloor>q\<rfloor>" by linarith
      with a show "\<exists>k::int. 0 < k \<and> q = of_int k" by blast
    next
      assume "\<exists>k::int. 0 < k \<and> q = of_int k"
      then obtain k :: int where k: "0 < k" "q = of_int k" by blast
      then have "1 \<le> k" by simp
      then have "(1::rat) \<le> of_int k" by (metis of_int_1_le_iff) 
      with k show "q = of_int \<lfloor>q\<rfloor> \<and> 0 < q \<and> 1 \<le> q" by simp
    qed
    then show ?thesis using Num
      by (auto simp: total_population_schema_def js_le_def Let_def not_le not_less)
  qed (simp_all add: total_population_schema_def js_le_def Let_def)
next
  assume "total_population_schema (Some n) = Inr v"
  then show "v = Some n"
    by (auto simp: total_population_schema_def Let_def split: if_splits)
qed

lemma total_population_schema_kept:
  "total_population_schema p = Inr v \<Longrightarrow> v = p"
  by (cases p) (auto simp: total_population_schema_def Let_def split: if_splits)

lemma total_population_schema_passes_iff:
  "(\<exists>v. total_population_schema p = Inr v) \<longleftrightarrow>
     (p = None \<or> (\<exists>k::int. 0 < k \<and> p = Some (Num (of_int k))))"
proof (cases p)
  case None
  then show ?thesis by (simp add: total_population_schema_def)
next
  case (Some n)
  then show ?thesis using total_population_schema_cases [of 0 n] by simp
qed

lemma speciesSchema_passes_iff:
  "(\<exists>out. speciesSchema rest input = Inr out) \<longleftrightarrow>
     (\<exists>a. scientific_name_schema (scientific_name input) = Inr a) \<and>
     (\<exists>c. total_population_schema (total_population input) = Inr c) \<and>
     (\<exists>d. image_schema rest (image_url input) = Inr d)"
  by (simp add: speciesSchema_def Let_def nullable_text_schema_def split: sum.split)

lemma speciesSchema_population_issue:
  assumes "total_population_schema (total_population input) = Inl found"
    and "t \<in> set found"
  shows "\<exists>issues. speciesSchema rest input = Inl issues \<and> (''total_population'', t) \<in> set issues"
  using assms
  by (auto simp: speciesSchema_def Let_def at_path_def nullable_text_schema_def
      split: sum.split)

lemma speciesSchema_population_kept:
  assumes "speciesSchema rest input = Inr out"
  shows "total_population out = total_population input"
proof -
  from assms obtain c where c: "total_population_schema (total_population input) = Inr c"
    and out: "total_population out = c"
    by (auto simp: speciesSchema_def Let_def split: sum.splits)
  from c have "c = total_population input" by (rule total_population_schema_kept)
  with out show ?thesis by simp
qed

text \<open>
  Claim C4. A total population of \<open>0\<close> or below fails validation with a \<open>TooSmall\<close>
  issue: in its field schema, and in the schema of the whole form, whatever the other
  fields hold, so that submitting such a form sends no request. A population of \<open>1\<close>
  passes; an absent (\<^verbatim>\<open>null\<close>) population passes. A present value passes exactly when it
  is a positive integer, and it passes unchanged. For the whole form: with a population
  \<open>p\<close> it passes validation exactly when it passes with an absent population and \<open>p\<close> is
  absent or a positive integer, and the validated form holds the population it was
  given.
\<close>

theorem total_population_positive_integer:
  "(q \<le> 0 \<longrightarrow>
      (\<exists>issues. total_population_schema (Some (Num q)) = Inl issues \<and> TooSmall \<in> set issues) \<and>
      (\<exists>issues. speciesSchema rest (input\<lparr>total_population := Some (Num q)\<rparr>) = Inl issues \<and>
         (''total_population'', TooSmall) \<in> set issues) \<and>
      (total_population (form_values st) = Some (Num q) \<longrightarrow>
         requests (handleSubmit rest backend userId species st) = requests st)) \<and>
   total_population_schema (Some (Num 1)) = Inr (Some (Num 1)) \<and>
   total_population_schema None = Inr None \<and>
   ((\<exists>v. total_population_schema (Some n) = Inr v) \<longleftrightarrow>
      (\<exists>k::int. 0 < k \<and> n = Num (of_int k))) \<and>
   (total_population_schema (Some n) = Inr v \<longrightarrow> v = Some n) \<and>
   ((\<exists>out. speciesSchema rest (input\<lparr>total_population := p\<rparr>) = Inr out) \<longleftrightarrow>
      (\<exists>out. speciesSchema rest (input\<lparr>total_population := None\<rparr>) = Inr out) \<and>
      (p = None \<or> (\<exists>k::int. 0 < k \<and> p = Some (Num (of_int k))))) \<and>
   (speciesSchema rest input = Inr out \<longrightarrow> total_population out = total_population input)"
proof (intro conjI impI)
  assume q: "q \<le> 0"
  from total_population_schema_cases [of q n v] q
  obtain found where found: "total_population_schema (Some (Num q)) = Inl found"
    "TooSmall \<in> set found"
    by blast
  then show "\<exists>issues. total_population_schema (Some (Num q)) = Inl issues \<and>
      TooSmall \<in> set issues"
    by blast
  show "\<exists>issues. speciesSchema rest (input\<lparr>total_population := Some (Num q)\<rparr>) = Inl issues \<and>
      (''total_population'', TooSmall) \<in> set issues"
    by (rule speciesSchema_population_issue [where found = found]) (simp_all add: found)
  assume "total_population (form_values st) = Some (Num q)"
  with found have "total_population_schema (total_population (form_values st)) = Inl found"
    by simp
  from speciesSchema_population_issue [OF this found(2), of rest]
  obtain issues where "speciesSchema rest (form_values st) = Inl issues"
    by blast
  then have "handleSubmit rest backend userId species st = st\<lparr>field_errors := issues\<rparr>"
    by (rule handleSubmit_invalid)
  then show "requests (handleSubmit rest backend userId species st) = requests st"
    by simp
next
  show "total_population_schema (Some (Num 1)) = Inr (Some (Num 1))"
    using total_population_schema_cases [of q n v] by blast
  show "total_population_schema None = Inr None"
    using total_population_schema_cases [of q n v] by blast
  show "(\<exists>v. total_population_schema (Some n) = Inr v) \<longleftrightarrow>
      (\<exists>k::int. 0 < k \<and> n = Num (of_int k))"
    using total_population_schema_cases [of q n v] by blast
next
  assume "total_population_schema (Some n) = Inr v"
  then show "v = Some n" by (rule total_population_schema_kept)
next
  show "(\<exists>out. speciesSchema rest (input\<lparr>total_population := p\<rparr>) = Inr out) \<longleftrightarrow>
      (\<exists>out. speciesSchema rest (input\<lparr>total_population := None\<rparr>) = Inr out) \<and>
      (p = None \<or> (\<exists>k::int. 0 < k \<and> p = Some (Num (of_int k))))"
    unfolding speciesSchema_passes_iff total_population_schema_passes_iff [symmetric]
    by (auto simp: total_population_schema_def)
next
  assume "speciesSchema rest input = Inr out"
  then show "total_population out = total_population input"
    by (rule speciesSchema_population_kept)
qed

text \<open>
  The form of the lion with a population of \<open>0\<close> is refused and sends nothing; with a
  population of \<open>1\<close>, and with none, it is accepted. In the field schema \<open>-3\<close> is refused
  and \<open>20000\<close> accepted.
\<close>

theorem total_population_positive_integer_witness:
  "(0 :: rat) \<le> 0 \<and>
   total_population (form_values (open_dialog\<lparr>form_values := lion_form\<lparr>total_population := Some (Num 0)\<rparr>\<rparr>)) =
     Some (Num 0) \<and>
   speciesSchema any_rest (lion_form\<lparr>total_population := Some (Num 0)\<rparr>) =
     Inl [(''total_population'', TooSmall), (''total_population'', TooSmall)] \<and>
   requests (handleSubmit any_rest accepting_backend ''user-1'' lion
      (open_dialog\<lparr>form_values := lion_form\<lparr>total_population := Some (Num 0)\<rparr>\<rparr>)) = [] \<and>
   total_population_schema (Some (Num 20000)) = Inr (Some (Num 20000)) \<and>
   speciesSchema any_rest (lion_form\<lparr>total_population := Some (Num 1)\<rparr>) =
     Inr (lion_input\<lparr>total_population := Some (Num 1)\<rparr>) \<and>
   speciesSchema any_rest (lion_form\<lparr>total_population := None\<rparr>) =
     Inr (lion_input\<lparr>total_population := None\<rparr>) \<and>
   total_population (lion_input\<lparr>total_population := Some (Num 1)\<rparr>) =
     total_population (lion_form\<lparr>total_population := Some (Num 1)\<rparr>)"
proof -
  have sci: "scientific_name_schema '' Panthera leo '' = Inr ''Panthera leo''"
    by (simp add: scientific_name_schema_def trim_def isWhiteSpace_def)
  have com: "nullable_text_schema (Some ''Lion'') = Inr (Some ''Lion'')"
    by (simp add: nullable_text_schema_def blank_to_null_def trim_def isWhiteSpace_def)
  have des: "nullable_text_schema (Some ''  '') = Inr None"
    by (simp add: nullable_text_schema_def blank_to_null_def trim_def isWhiteSpace_def)
  have img: "image_schema any_rest None = Inr None"
    by (simp add: image_schema_def blank_to_null_def)
  have zero: "total_population_schema (Some (Num 0)) = Inl [TooSmall, TooSmall]"
    by (simp add: total_population_schema_def js_le_def)
  have one: "total_population_schema (Some (Num 1)) = Inr (Some (Num 1))"
    by (simp add: total_population_schema_def js_le_def)
  have none: "total_population_schema None = Inr None"
    by (simp add: total_population_schema_def)
  have big: "total_population_schema (Some (Num 20000)) = Inr (Some (Num 20000))"
    by (simp add: total_population_schema_def js_le_def)
  have f0: "speciesSchema any_rest (lion_form\<lparr>total_population := Some (Num 0)\<rparr>) =
      Inl [(''total_population'', TooSmall), (''total_population'', TooSmall)]"
    by (simp add: speciesSchema_def lion_form_def sci com des img zero at_path_def)
  have f1: "speciesSchema any_rest (lion_form\<lparr>total_population := Some (Num 1)\<rparr>) =
      Inr (lion_input\<lparr>total_population := Some (Num 1)\<rparr>)"
    by (simp add: speciesSchema_def lion_form_def lion_input_def sci com des img one)
  have fn: "speciesSchema any_rest (lion_form\<lparr>total_population := None\<rparr>) =
      Inr (lion_input\<lparr>total_population := None\<rparr>)"
    by (simp add: speciesSchema_def lion_form_def lion_input_def sci com des img none)
  show ?thesis
    using f0 f1 fn big
      total_population_positive_integer
        [where q = 0 and rest = any_rest and input = lion_form and backend = accepting_backend
           and userId = "''user-1''" and species = lion
           and st = "open_dialog\<lparr>form_values := lion_form\<lparr>total_population := Some (Num 0)\<rparr>\<rparr>"
           and n = "Num 20000" and v = "Some (Num 20000)" and p = "Some (Num 1)"
           and out = "lion_input\<lparr>total_population := Some (Num 1)\<rparr>"]
    by (simp add: open_dialog_def)
qed

lemma nullable_text_schema_cases:
  "nullable_text_schema v =
     Inr (case v of None \<Rightarrow> None | Some s \<Rightarrow> if trim s = [] then None else Some (trim s))"
  by (simp add: nullable_text_schema_def blank_to_null_cases)

lemma image_schema_null: "image_schema rest None = Inr None"
  by (simp add: image_schema_def blank_to_null_def)

lemma whitespace_not_alpha: "isWhiteSpace c \<Longrightarrow> \<not> isAsciiAlpha c"
  by (auto simp: isWhiteSpace_def isAsciiAlpha_def)

lemma new_URL_ok_blank:
  assumes "trim s = []"
  shows "\<not> new_URL_ok rest s"
proof -
  let ?stripped = "rev (dropWhile isC0OrSpace (rev (dropWhile isC0OrSpace s)))"
  let ?s = "filter (\<lambda>c. \<not> isTabOrNewline c) ?stripped"
  have "set ?s \<subseteq> set s"
    by (auto dest!: set_dropWhileD)
  moreover from assms have "\<forall>c \<in> set s. isWhiteSpace c"
    by (simp add: trim_Nil_iff)
  ultimately have "\<forall>c \<in> set ?s. \<not> isAsciiAlpha c"
    using whitespace_not_alpha by blast
  then show ?thesis
    unfolding new_URL_ok_def Let_def by (cases ?s) auto
qed

lemma image_schema_blank: "trim s = [] \<Longrightarrow> image_schema rest (Some s) = Inl [InvalidUrl]"
  by (simp add: image_schema_def new_URL_ok_blank)

text \<open>
  Claim C2, at the input where the code departs from it. For \<^verbatim>\<open>common_name\<close> and
  \<^verbatim>\<open>description\<close> the claim holds (\<open>nullable_text_schema_cases\<close>), and an absent image
  passes (\<open>image_schema_null\<close>). An image that is the empty string, or two spaces, does
  not reach the transform that would make it \<^verbatim>\<open>null\<close>: the \<^verbatim>\<open>url()\<close> check before it
  refuses the string, whatever is asked of a URL after its scheme (as it refuses every
  string of white space, \<open>image_schema_blank\<close>). The form of the lion
  with an emptied image field fails validation with the issue \<open>InvalidUrl\<close> under
  \<^verbatim>\<open>image\<close>, and submitting it only records that issue.
\<close>

theorem blank_image_rejected:
  "image_schema rest (Some '''') = Inl [InvalidUrl] \<and>
   image_schema rest (Some ''  '') = Inl [InvalidUrl] \<and>
   speciesSchema rest (lion_form\<lparr>image_url := Some ''''\<rparr>) = Inl [(''image'', InvalidUrl)] \<and>
   handleSubmit rest accepting_backend ''user-1'' lion
       (open_dialog\<lparr>form_values := lion_form\<lparr>image_url := Some ''''\<rparr>\<rparr>) =
     open_dialog\<lparr>form_values := lion_form\<lparr>image_url := Some ''''\<rparr>,
                 field_errors := [(''image'', InvalidUrl)]\<rparr>"
proof -
  have a: "image_schema rest (Some '''') = Inl [InvalidUrl]"
    by (simp add: image_schema_def new_URL_ok_def)
  have b: "image_schema rest (Some ''  '') = Inl [InvalidUrl]"
    by (simp add: image_schema_def new_URL_ok_def isC0OrSpace_def)
  have sci: "scientific_name_schema '' Panthera leo '' = Inr ''Panthera leo''"
    by (simp add: scientific_name_schema_def trim_def isWhiteSpace_def)
  have pop: "total_population_schema (Some (Num 20000)) = Inr (Some (Num 20000))"
    by (simp add: total_population_schema_def js_le_def)
  have c: "speciesSchema rest (lion_form\<lparr>image_url := Some ''''\<rparr>) = Inl [(''image'', InvalidUrl)]"
    by (simp add: speciesSchema_def lion_form_def a sci pop nullable_text_schema_def at_path_def)
  have d: "handleSubmit rest accepting_backend ''user-1'' lion
       (open_dialog\<lparr>form_values := lion_form\<lparr>image_url := Some ''''\<rparr>\<rparr>) =
     open_dialog\<lparr>form_values := lion_form\<lparr>image_url := Some ''''\<rparr>,
                 field_errors := [(''image'', InvalidUrl)]\<rparr>"
    by (simp add: handleSubmit_def c)
  from a b c d show ?thesis by blast
qed

subsection \<open>The submit handler\<close>

lemma FormData_eta:
  "\<lparr> scientific_name = scientific_name (input :: FormData),
      common_name = common_name input,
      kingdom = kingdom input,
      total_population = total_population input,
      image_url = image_url input,
      description = description input \<rparr> = input"
  by simp


lemma onSubmit_error:
  "\<not> (truthy (author species) \<and> author species \<noteq> Some userId) \<Longrightarrow>
   backend \<lparr> table = ''species'', payload = input, eq_column = ''id'',
             eq_value = species_id species \<rparr> = Some message \<Longrightarrow>
   onSubmit backend userId species input st =
     st\<lparr>requests := requests st @
            [\<lparr> table = ''species'', payload = input, eq_column = ''id'',
               eq_value = species_id species \<rparr>],
        toasts := toasts st @ [Toast ''Something went wrong.'' message Destructive]\<rparr>"
  unfolding onSubmit_def FormData_eta by (auto simp: Let_def)

lemma onSubmit_success:
  "\<not> (truthy (author species) \<and> author species \<noteq> Some userId) \<Longrightarrow>
   backend \<lparr> table = ''species'', payload = input, eq_column = ''id'',
             eq_value = species_id species \<rparr> = None \<Longrightarrow>
   onSubmit backend userId species input st =
     st\<lparr>requests := requests st @
            [\<lparr> table = ''species'', payload = input, eq_column = ''id'',
               eq_value = species_id species \<rparr>],
        form_values := defaultValues,
        is_open := False,
        refreshes := Suc (refreshes st),
        toasts := toasts st @
          [Toast ''Species edited!'' (''Successfully edited '' @ scientific_name input @ ''.'')
             Default]\<rparr>"
  unfolding onSubmit_def FormData_eta by (auto simp: Let_def)

lemma handleSubmit_valid:
  "speciesSchema rest (form_values st) = Inr input \<Longrightarrow>
   handleSubmit rest backend userId species st =
     onSubmit backend userId species input (st\<lparr>field_errors := []\<rparr>)"
  by (simp add: handleSubmit_def)

lemma speciesSchema_lion_form: "speciesSchema rest lion_form = Inr lion_input"
proof -
  have sci: "scientific_name_schema '' Panthera leo '' = Inr ''Panthera leo''"
    by (simp add: scientific_name_schema_def trim_def isWhiteSpace_def)
  have pop: "total_population_schema (Some (Num 20000)) = Inr (Some (Num 20000))"
    by (simp add: total_population_schema_def js_le_def)
  have com: "nullable_text_schema (Some ''Lion'') = Inr (Some ''Lion'')"
    by (simp add: nullable_text_schema_def blank_to_null_def trim_def isWhiteSpace_def)
  have des: "nullable_text_schema (Some ''  '') = Inr None"
    by (simp add: nullable_text_schema_def blank_to_null_def trim_def isWhiteSpace_def)
  show ?thesis
    by (simp add: speciesSchema_def lion_form_def lion_input_def sci pop com des
        image_schema_null)
qed

lemma lion_fields:
  "species_id lion = 17" "author lion = Some ''user-1''"
  "species_id orphan_lion = 17" "author orphan_lion = Some ''''"
  "species_id seeded_lion = 16" "author seeded_lion = Some ''user-1''"
  by (simp_all add: lion_def orphan_lion_def seeded_lion_def)




text \<open>
  Claim C8. When the submitted form passes validation with the values \<open>input\<close>, the author
  check does not fire, and the backend answers the request without an error, the
  submission sends exactly one request, an update of table \<^verbatim>\<open>species\<close> with \<open>input\<close> as
  its payload on the row whose \<^verbatim>\<open>id\<close> equals the id of the edited record; it closes the
  dialog, calls \<^verbatim>\<open>router.refresh()\<close> once, and adds the notification "Species edited!".
\<close>

theorem successful_edit:
  assumes "speciesSchema rest (form_values st) = Inr input"
    and "\<not> (truthy (author species) \<and> author species \<noteq> Some userId)"
    and "backend \<lparr> table = ''species'', payload = input, eq_column = ''id'',
                   eq_value = species_id species \<rparr> = None"
  shows "handleSubmit rest backend userId species st =
           st\<lparr>field_errors := [],
              requests := requests st @
                [\<lparr> table = ''species'', payload = input, eq_column = ''id'',
                   eq_value = species_id species \<rparr>],
              form_values := defaultValues,
              is_open := False,
              refreshes := Suc (refreshes st),
              toasts := toasts st @
                [Toast ''Species edited!''
                   (''Successfully edited '' @ scientific_name input @ ''.'') Default]\<rparr>"
proof -
  have "handleSubmit rest backend userId species st =
          onSubmit backend userId species input (st\<lparr>field_errors := []\<rparr>)"
    using assms(1) by (rule handleSubmit_valid)
  also have "\<dots> =
      (st\<lparr>field_errors := []\<rparr>)
        \<lparr>requests := requests (st\<lparr>field_errors := []\<rparr>) @
           [\<lparr> table = ''species'', payload = input, eq_column = ''id'',
              eq_value = species_id species \<rparr>],
         form_values := defaultValues,
         is_open := False,
         refreshes := Suc (refreshes (st\<lparr>field_errors := []\<rparr>)),
         toasts := toasts (st\<lparr>field_errors := []\<rparr>) @
           [Toast ''Species edited!''
              (''Successfully edited '' @ scientific_name input @ ''.'') Default]\<rparr>"
    using assms(2,3)
    by (rule onSubmit_success
        [where species = species and userId = userId and backend = backend and input = input])
  finally show ?thesis by simp
qed

text \<open>The lion edited by its author \<^verbatim>\<open>user-1\<close>, on a backend that accepts the update.\<close>

theorem successful_edit_witness:
  "speciesSchema any_rest (form_values open_dialog) = Inr lion_input \<and>
   \<not> (truthy (author lion) \<and> author lion \<noteq> Some ''user-1'') \<and>
   accepting_backend \<lparr> table = ''species'', payload = lion_input, eq_column = ''id'',
                        eq_value = species_id lion \<rparr> = None \<and>
   handleSubmit any_rest accepting_backend ''user-1'' lion open_dialog =
     \<lparr> is_open = False, form_values = defaultValues, field_errors = [],
       toasts = [Toast ''Species edited!'' ''Successfully edited Panthera leo.'' Default],
       refreshes = 1,
       requests =
         [\<lparr> table = ''species'', payload = lion_input, eq_column = ''id'', eq_value = 17 \<rparr>] \<rparr>"
proof -
  have valid: "speciesSchema any_rest (form_values open_dialog) = Inr lion_input"
    by (simp add: open_dialog_def speciesSchema_lion_form)
  have author: "\<not> (truthy (author lion) \<and> author lion \<noteq> Some ''user-1'')"
    by (simp add: lion_fields)
  have accepted:
    "accepting_backend \<lparr> table = ''species'', payload = lion_input, eq_column = ''id'',
                          eq_value = species_id lion \<rparr> = None"
    by (simp add: accepting_backend_def)
  show ?thesis
    using valid author accepted
      successful_edit
        [where rest = any_rest and st = open_dialog and input = lion_input and species = lion
           and userId = "''user-1''" and backend = accepting_backend,
         OF valid author accepted]
    by (simp add: open_dialog_def lion_fields lion_input_def)
qed

text \<open>
  Claim C9. When the author check does not fire and the backend answers the update with
  an error, \<open>onSubmit\<close> has sent that one request and adds a destructive notification with
  the error's message, and nothing else: the dialog's open state, the form's values and
  the number of page refreshes are as before, and the request was sent once.
\<close>

theorem backend_error_aborts:
  assumes "\<not> (truthy (author species) \<and> author species \<noteq> Some userId)"
    and "backend \<lparr> table = ''species'', payload = input, eq_column = ''id'',
                   eq_value = species_id species \<rparr> = Some message"
  shows "onSubmit backend userId species input st =
           st\<lparr>requests := requests st @
                  [\<lparr> table = ''species'', payload = input, eq_column = ''id'',
                     eq_value = species_id species \<rparr>],
              toasts := toasts st @ [Toast ''Something went wrong.'' message Destructive]\<rparr> \<and>
         is_open (onSubmit backend userId species input st) = is_open st \<and>
         form_values (onSubmit backend userId species input st) = form_values st \<and>
         refreshes (onSubmit backend userId species input st) = refreshes st \<and>
         length (requests (onSubmit backend userId species input st)) =
           Suc (length (requests st))"
proof -
  have "onSubmit backend userId species input st =
           st\<lparr>requests := requests st @
                  [\<lparr> table = ''species'', payload = input, eq_column = ''id'',
                     eq_value = species_id species \<rparr>],
              toasts := toasts st @ [Toast ''Something went wrong.'' message Destructive]\<rparr>"
    using assms
    by (rule onSubmit_error
        [where species = species and userId = userId and backend = backend and input = input])
  then show ?thesis by simp
qed

text \<open>The lion edited by its author, on a backend that refuses the update.\<close>

theorem backend_error_aborts_witness:
  "\<not> (truthy (author lion) \<and> author lion \<noteq> Some ''user-1'') \<and>
   failing_backend \<lparr> table = ''species'', payload = lion_input, eq_column = ''id'',
                      eq_value = species_id lion \<rparr> = Some ''permission denied'' \<and>
   onSubmit failing_backend ''user-1'' lion lion_input open_dialog =
     \<lparr> is_open = True, form_values = lion_form, field_errors = [],
       toasts = [Toast ''Something went wrong.'' ''permission denied'' Destructive],
       refreshes = 0,
       requests =
         [\<lparr> table = ''species'', payload = lion_input, eq_column = ''id'', eq_value = 17 \<rparr>] \<rparr>"
proof -
  have author: "\<not> (truthy (author lion) \<and> author lion \<noteq> Some ''user-1'')"
    by (simp add: lion_fields)
  have refused:
    "failing_backend \<lparr> table = ''species'', payload = lion_input, eq_column = ''id'',
                        eq_value = species_id lion \<rparr> = Some ''permission denied''"
    by (simp add: failing_backend_def)
  show ?thesis
    using author refused
      backend_error_aborts
        [where species = lion and userId = "''user-1''" and backend = failing_backend
           and input = lion_input and message = "''permission denied''" and st = open_dialog,
         OF author refused]
    by (simp add: open_dialog_def lion_fields)
qed

subsection \<open>What the dialog component returns\<close>

lemma EditSpeciesDialog_hidden:
  "species_id species \<le> 16 \<Longrightarrow>
   EditSpeciesDialog species = Element ''div'' [Text '' '', Text '' '']"
  by (simp add: EditSpeciesDialog_def)

lemma mentions_Dialog: "mentions ''Dialog'' (EditSpeciesDialog species) \<longleftrightarrow> 16 < species_id species"
  by (simp add: EditSpeciesDialog_def)

lemma mentions_DialogTrigger:
  "mentions ''DialogTrigger'' (EditSpeciesDialog species) \<longleftrightarrow> 16 < species_id species"
  by (simp add: EditSpeciesDialog_def)

lemma mentions_form: "mentions ''form'' (EditSpeciesDialog species) \<longleftrightarrow> 16 < species_id species"
  by (simp add: EditSpeciesDialog_def)

text \<open>
  Claim C10. The component returns the dialog, its trigger button and the form exactly
  when the id of the record is greater than 16. For an id of 16 or less it returns a
  \<^verbatim>\<open>div\<close> with two spaces and nothing else, and a submit event changes nothing: no
  request is sent, whoever the author is.
\<close>

theorem edit_interface_only_above_16:
  "(mentions ''Dialog'' (EditSpeciesDialog species) \<longleftrightarrow> 16 < species_id species) \<and>
   (mentions ''DialogTrigger'' (EditSpeciesDialog species) \<longleftrightarrow> 16 < species_id species) \<and>
   (mentions ''form'' (EditSpeciesDialog species) \<longleftrightarrow> 16 < species_id species) \<and>
   (species_id species \<le> 16 \<longrightarrow>
      EditSpeciesDialog species = Element ''div'' [Text '' '', Text '' ''] \<and>
      submit_event rest backend userId species st = st)"
  by (simp add: mentions_Dialog mentions_DialogTrigger mentions_form EditSpeciesDialog_hidden
      submit_event_def)

text \<open>The record with id 16, submitted by its own author, and the record with id 17.\<close>

theorem edit_interface_only_above_16_witness:
  "species_id seeded_lion \<le> 16 \<and> author seeded_lion = Some ''user-1'' \<and>
   EditSpeciesDialog seeded_lion = Element ''div'' [Text '' '', Text '' ''] \<and>
   submit_event any_rest accepting_backend ''user-1'' seeded_lion open_dialog = open_dialog \<and>
   16 < species_id lion \<and> mentions ''form'' (EditSpeciesDialog lion)"
  using edit_interface_only_above_16
    [of seeded_lion any_rest accepting_backend "''user-1''" open_dialog]
    edit_interface_only_above_16 [of lion]
  by (simp add: lion_fields)

subsection \<open>The chart\<close>

lemma parseFloat_120: "parseFloat ''120'' = Num 120"
  by (simp add: parseFloat_def trimStart_def signPart_def fractionPart_def isWhiteSpace_def
      isAsciiDigit_def Let_def decimalValue_def digitValue_def exponentPart_def pow10_def
      toNumber_def)

lemma parseFloat_undefined: "parseFloat ''undefined'' = NaN"
  by (simp add: parseFloat_def trimStart_def signPart_def fractionPart_def isWhiteSpace_def
      isAsciiDigit_def Let_def)

lemma parse_row_cheetah:
  "parse_row
     [''Animal'' \<mapsto> ''Cheetah'', ''Average Speed (km/h)'' \<mapsto> ''120'',
      ''Diet'' \<mapsto> ''Carnivore''] =
   \<lparr> name = ''Cheetah'', speed = Num 120, diet = ''carnivore'' \<rparr>"
proof -
  have "trim ''Cheetah'' = ''Cheetah''"
    by (simp add: trim_def isWhiteSpace_def)
  moreover have "toLowerCase (trim ''Carnivore'') = ''carnivore''"
    by code_simp
  ultimately show ?thesis
    by (simp add: parse_row_def String_of_def parseFloat_120)
qed

lemma parse_row_nameless:
  "name (parse_row
     [''Animal'' \<mapsto> '''', ''Average Speed (km/h)'' \<mapsto> ''40'',
      ''Diet'' \<mapsto> ''Herbivore'']) = []"
  by (simp add: parse_row_def String_of_def trim_def)

text \<open>
  Claim C5 as stated fails on its own example: the rows carry the speed under the key
  \<^verbatim>\<open>Speed\<close>, the parse step reads the column \<^verbatim>\<open>Average Speed (km/h)\<close>, finds none, and
  \<^verbatim>\<open>parseFloat\<close> of the text \<^verbatim>\<open>undefined\<close> is NaN; both rows are dropped and the parsed
  dataset is empty.
\<close>

theorem csv_speed_key_counterexample:
  "parse_rows
     [[''Animal'' \<mapsto> ''Cheetah'', ''Speed'' \<mapsto> ''120'', ''Diet'' \<mapsto> ''Carnivore''],
      [''Animal'' \<mapsto> '''', ''Speed'' \<mapsto> ''40'', ''Diet'' \<mapsto> ''Herbivore'']] = []"
  by (simp add: parse_rows_def keep_datum_def parse_row_def String_of_def parseFloat_undefined)

text \<open>
  Claim C5, amended. The parse step maps each row to the trimmed \<^verbatim>\<open>Animal\<close> column, the
  number \<^verbatim>\<open>parseFloat\<close> reads from the column \<^verbatim>\<open>Average Speed (km/h)\<close> and the trimmed,
  lower-cased \<^verbatim>\<open>Diet\<close> column, and keeps, in order, exactly the entries whose name is not
  empty and whose speed is a finite number. On the two rows of the claim with the speed
  under that column's name, Cheetah with speed 120 and a row with an empty name and speed
  40, the result is the one entry Cheetah.
\<close>

theorem csv_rows_named_and_finite:
  "parse_rows rows =
     filter (\<lambda>d. name d \<noteq> [] \<and> isFinite (speed d))
       (map (\<lambda>r. \<lparr> name = trim (String_of (r ''Animal'')),
                    speed = parseFloat (String_of (r ''Average Speed (km/h)'')),
                    diet = toLowerCase (trim (String_of (r ''Diet''))) \<rparr>) rows) \<and>
   parse_rows
     [[''Animal'' \<mapsto> ''Cheetah'', ''Average Speed (km/h)'' \<mapsto> ''120'',
       ''Diet'' \<mapsto> ''Carnivore''],
      [''Animal'' \<mapsto> '''', ''Average Speed (km/h)'' \<mapsto> ''40'',
       ''Diet'' \<mapsto> ''Herbivore'']] =
     [\<lparr> name = ''Cheetah'', speed = Num 120, diet = ''carnivore'' \<rparr>]"
proof
  have "keep_datum = (\<lambda>d. name d \<noteq> [] \<and> isFinite (speed d))"
    by (rule ext) (simp add: keep_datum_def)
  moreover have "parse_row = (\<lambda>r. \<lparr> name = trim (String_of (r ''Animal'')),
                    speed = parseFloat (String_of (r ''Average Speed (km/h)'')),
                    diet = toLowerCase (trim (String_of (r ''Diet''))) \<rparr>)"
    by (rule ext) (simp add: parse_row_def)
  ultimately show "parse_rows rows =
     filter (\<lambda>d. name d \<noteq> [] \<and> isFinite (speed d))
       (map (\<lambda>r. \<lparr> name = trim (String_of (r ''Animal'')),
                    speed = parseFloat (String_of (r ''Average Speed (km/h)'')),
                    diet = toLowerCase (trim (String_of (r ''Diet''))) \<rparr>) rows)"
    by (simp add: parse_rows_def)
next
  show "parse_rows
     [[''Animal'' \<mapsto> ''Cheetah'', ''Average Speed (km/h)'' \<mapsto> ''120'',
       ''Diet'' \<mapsto> ''Carnivore''],
      [''Animal'' \<mapsto> '''', ''Average Speed (km/h)'' \<mapsto> ''40'',
       ''Diet'' \<mapsto> ''Herbivore'']] =
     [\<lparr> name = ''Cheetah'', speed = Num 120, diet = ''carnivore'' \<rparr>]"
    by (simp add: parse_rows_def keep_datum_def parse_row_cheetah parse_row_nameless)
qed

lemma d3_max_from_finite:
  "\<forall>v \<in> set vs. isFinite v \<Longrightarrow> \<exists>q'. foldl d3_max_step (Some (Num q)) vs = Some (Num q')"
proof (induction vs arbitrary: q)
  case Nil
  then show ?case by simp
next
  case (Cons v vs)
  then obtain p where v: "v = Num p" by (cases v) auto
  from Cons.prems have rest: "\<forall>v \<in> set vs. isFinite v" by simp
  show ?case
  proof (cases "q < p")
    case True
    with v show ?thesis using Cons.IH [OF rest, of p] by (simp add: d3_max_step_def)
  next
    case False
    with v show ?thesis using Cons.IH [OF rest, of q] by (simp add: d3_max_step_def)
  qed
qed

lemma d3_max_defined:
  "data \<noteq> [] \<Longrightarrow> \<forall>d \<in> set data. isFinite (speed d) \<Longrightarrow>
   \<exists>q. d3_max (map speed data) = Some (Num q)"
proof -
  assume ne: "data \<noteq> []" and fin: "\<forall>d \<in> set data. isFinite (speed d)"
  from ne obtain d ds where data: "data = d # ds" by (cases data) auto
  with fin obtain p where p: "speed d = Num p" by (cases "speed d") auto
  from fin data have "\<forall>v \<in> set (map speed ds). isFinite v" by simp
  from d3_max_from_finite [OF this, of p] show ?thesis
    by (simp add: d3_max_def data p d3_max_step_def js_le_def)
qed

lemma render_effect_empty: "render_effect el [] = []"
  by (simp add: render_effect_def)

text \<open>
  Claim C6. On an empty dataset the render effect returns at once: it makes no call on
  the container or the chart library, and the component itself returns a \<^verbatim>\<open>div\<close> without
  children. So a mount whose rows are all filtered out draws nothing. Whenever the
  effect does take a maximum, the dataset, and with it the list of speeds, is not empty.
\<close>

theorem empty_dataset_draws_nothing:
  "render_effect el [] = [] \<and>
   AnimalSpeedGraph = Element ''div'' [] \<and>
   (parse_rows rows = [] \<longrightarrow> mount_calls el rows = []) \<and>
   (D3Max values \<in> set (render_effect el data) \<longrightarrow> data \<noteq> [] \<and> values \<noteq> [])"
proof (intro conjI impI)
  show "render_effect el [] = []" by (rule render_effect_empty)
  show "AnimalSpeedGraph = Element ''div'' []" by (simp add: AnimalSpeedGraph_def)
next
  assume "parse_rows rows = []"
  then show "mount_calls el rows = []"
    by (simp add: mount_calls_def render_effect_empty)
next
  assume m: "D3Max values \<in> set (render_effect el data)"
  then have "render_effect el data \<noteq> []" by auto
  then have ne: "data \<noteq> []" by (auto simp: render_effect_def)
  with m have "values = map speed data"
    by (auto simp: render_effect_def Let_def split: if_splits)
  with ne show "data \<noteq> []" and "values \<noteq> []" by simp_all
qed

text \<open>A CSV whose only row has no name, and the dataset that holds the cheetah.\<close>

theorem empty_dataset_draws_nothing_witness:
  "parse_rows [nameless_row] = [] \<and>
   mount_calls (Some ()) [nameless_row] = [] \<and>
   D3Max [Num 120] \<in> set (render_effect (Some ()) [cheetah])"
proof -
  have filtered: "parse_rows [nameless_row] = []"
    by (simp add: parse_rows_def keep_datum_def nameless_row_def parse_row_nameless)
  have drawn: "D3Max [Num 120] \<in> set (render_effect (Some ()) [cheetah])"
    by (simp add: render_effect_def cheetah_def Let_def)
  show ?thesis
    using filtered drawn
      empty_dataset_draws_nothing [of "Some ()" "[nameless_row]" "[Num 120]" "[cheetah]"]
    by simp
qed

subsection \<open>The page\<close>

text \<open>
  Claim C7. Without a session the page redirects to \<^verbatim>\<open>/\<close>: the request consists of the
  session lookup and the redirect, and no CSV fetch is among its events; the page has no
  fetch of species data at all. The page returns the chart component, and the request
  fetches the CSV, exactly when there is a session.
\<close>

theorem unauthenticated_redirect_before_fetch:
  "SpeciesSpeedPage (None :: 's option) = Redirect ''/'' \<and>
   request_events (None :: 's option) = [GetSession, RedirectTo ''/''] \<and>
   FetchCsv url \<notin> set (request_events (None :: 's option)) \<and>
   ((\<exists>page. SpeciesSpeedPage session = Rendered page \<and> mentions ''AnimalSpeedGraph'' page)
      \<longleftrightarrow> session \<noteq> None) \<and>
   (FetchCsv ''/sample_animals.csv'' \<in> set (request_events session) \<longleftrightarrow> session \<noteq> None)"
  by (cases session) (simp_all add: SpeciesSpeedPage_def request_events_def)

end
